theory Spec2Isabelle
  imports Complex_Main "HOL-Library.Sublist"
begin

section \<open>JavaScript numbers\<close>

text \<open>
  The dashboard computes with JavaScript Numbers. A Number is modelled as \<open>NaN\<close>, one of the
  two infinities, or a finite value. Finite values are idealised as reals: the rounding of
  IEEE doubles and overflow to an infinity are not modelled. Time values of \<open>Date\<close> are
  integral numbers of milliseconds and their sums and differences are exact in doubles below
  \<open>2^53\<close>, so nothing is lost for them.
\<close>

datatype jsnum = NaN | NInf | Fin real | PInf

text \<open>\<^verbatim>\<open>a - b\<close>\<close>

fun js_sub :: "jsnum \<Rightarrow> jsnum \<Rightarrow> jsnum" where
  "js_sub NaN _ = NaN"
| "js_sub _ NaN = NaN"
| "js_sub (Fin a) (Fin b) = Fin (a - b)"
| "js_sub (Fin _) PInf = NInf"
| "js_sub (Fin _) NInf = PInf"
| "js_sub PInf PInf = NaN"
| "js_sub PInf _ = PInf"
| "js_sub NInf NInf = NaN"
| "js_sub NInf _ = NInf"

text \<open>\<^verbatim>\<open>-a\<close>\<close>

fun js_neg :: "jsnum \<Rightarrow> jsnum" where
  "js_neg NaN = NaN"
| "js_neg NInf = PInf"
| "js_neg (Fin a) = Fin (- a)"
| "js_neg PInf = NInf"

text \<open>\<^verbatim>\<open>Math.abs(a)\<close>\<close>

fun Math_abs :: "jsnum \<Rightarrow> jsnum" where
  "Math_abs NaN = NaN"
| "Math_abs NInf = PInf"
| "Math_abs (Fin a) = Fin \<bar>a\<bar>"
| "Math_abs PInf = PInf"

text \<open>\<^verbatim>\<open>a < b\<close>: false as soon as one side is \<open>NaN\<close>.\<close>

fun js_lt :: "jsnum \<Rightarrow> jsnum \<Rightarrow> bool" where
  "js_lt NaN _ = False"
| "js_lt _ NaN = False"
| "js_lt (Fin a) (Fin b) = (a < b)"
| "js_lt (Fin _) PInf = True"
| "js_lt (Fin _) NInf = False"
| "js_lt NInf NInf = False"
| "js_lt NInf _ = True"
| "js_lt PInf _ = False"

text \<open>\<^verbatim>\<open>a > b\<close> is \<^verbatim>\<open>b < a\<close>.\<close>

definition js_gt :: "jsnum \<Rightarrow> jsnum \<Rightarrow> bool" where
  "js_gt a b = js_lt b a"

text \<open>\<^verbatim>\<open>a >= b\<close>: false when a side is \<open>NaN\<close>, otherwise the negation of \<^verbatim>\<open>a < b\<close>.\<close>

definition js_ge :: "jsnum \<Rightarrow> jsnum \<Rightarrow> bool" where
  "js_ge a b = (a \<noteq> NaN \<and> b \<noteq> NaN \<and> \<not> js_lt a b)"

text \<open>\<^verbatim>\<open>a <= b\<close> is \<^verbatim>\<open>b >= a\<close>.\<close>

definition js_le :: "jsnum \<Rightarrow> jsnum \<Rightarrow> bool" where
  "js_le a b = js_ge b a"

section \<open>The built-ins the page calls\<close>

text \<open>
  The page parses timestamps with \<^verbatim>\<open>new Date(s).getTime()\<close>, temperatures with
  \<^verbatim>\<open>parseFloat(s)\<close>, prints them with \<^verbatim>\<open>x.toFixed(1)\<close> and labels chart points with
  \<^verbatim>\<open>toLocaleString\<close>. These belong to the JavaScript runtime, not to the repository: they are
  parameters of the model, and every theorem below holds for any runtime.
  \<open>Date_parse rt s\<close> is what the runtime reads from the date string \<open>s\<close>.
\<close>

record js_runtime =
  Date_parse :: "string \<Rightarrow> jsnum"
  parseFloat :: "string \<Rightarrow> jsnum"
  toFixed1_finite :: "real \<Rightarrow> string"
  toLocaleString :: "jsnum \<Rightarrow> string"

text \<open>
  \<^verbatim>\<open>x.toFixed(1)\<close>: a Number that is not finite is printed by its name, a finite one with
  one decimal.
\<close>

fun toFixed1 :: "js_runtime \<Rightarrow> jsnum \<Rightarrow> string" where
  "toFixed1 rt NaN = ''NaN''"
| "toFixed1 rt PInf = ''Infinity''"
| "toFixed1 rt NInf = ''-Infinity''"
| "toFixed1 rt (Fin x) = toFixed1_finite rt x"

text \<open>
  The \<^verbatim>\<open>Date\<close> constructor stores \<^verbatim>\<open>TimeClip\<close> of its argument: \<open>NaN\<close> when the argument is not
  finite or lies more than \<open>8.64e15\<close> milliseconds from the epoch, otherwise the argument
  truncated to an integer. So the time value of a date is \<open>NaN\<close> (an invalid date) or an
  integral number of milliseconds within that range.
\<close>

definition js_trunc :: "real \<Rightarrow> real" where
  "js_trunc t = (if 0 \<le> t then of_int \<lfloor>t\<rfloor> else of_int \<lceil>t\<rceil>)"

fun TimeClip :: "jsnum \<Rightarrow> jsnum" where
  "TimeClip NaN = NaN"
| "TimeClip NInf = NaN"
| "TimeClip PInf = NaN"
| "TimeClip (Fin t) = (if \<bar>t\<bar> > 8640000000000000 then NaN else Fin (js_trunc t))"

text \<open>\<^verbatim>\<open>new Date(s).getTime()\<close> for a string \<open>s\<close>.\<close>

definition Date_getTime :: "js_runtime \<Rightarrow> string \<Rightarrow> jsnum" where
  "Date_getTime rt s = TimeClip (Date_parse rt s)"

text \<open>\<^verbatim>\<open>xs[i]\<close>: \<^verbatim>\<open>undefined\<close> (here \<open>None\<close>) outside the array.\<close>

definition js_index :: "'a list \<Rightarrow> int \<Rightarrow> 'a option" where
  "js_index xs i = (if 0 \<le> i \<and> i < int (length xs) then Some (xs ! nat i) else None)"

text \<open>\<^verbatim>\<open>xs.reduce(f, init)\<close>: a left fold; the callback is not called on an empty array.\<close>

definition reduce :: "('b \<Rightarrow> 'a \<Rightarrow> 'b) \<Rightarrow> 'a list \<Rightarrow> 'b \<Rightarrow> 'b" where
  "reduce f xs init = foldl f init xs"

section \<open>Readings (src/app/page.tsx)\<close>

text \<open>The interface \<^verbatim>\<open>TemperatureReading\<close>: every field is a string as fetched.\<close>

record TemperatureReading =
  id_field :: string
  timestamp :: string
  outdoor_temp :: string
  indoor_temp :: string
  temp_differential :: string

text \<open>The state \<^verbatim>\<open>timeRange\<close>, of type \<^verbatim>\<open>'24h' | '7d'\<close>.\<close>

datatype timeRange = T24h | T7d

subsection \<open>Latest reading and window recommendation\<close>

text \<open>\<^verbatim>\<open>const latestReading = data[data.length - 1]\<close>\<close>

definition latestReading :: "TemperatureReading list \<Rightarrow> TemperatureReading option" where
  "latestReading data = js_index data (int (length data) - 1)"

text \<open>
  \<^verbatim>\<open>const shouldCloseWindows = latestReading ?
    parseFloat(latestReading.outdoor_temp) > parseFloat(latestReading.indoor_temp) : false\<close>
\<close>

definition shouldCloseWindows :: "js_runtime \<Rightarrow> TemperatureReading list \<Rightarrow> bool" where
  "shouldCloseWindows rt data =
     (case latestReading data of
        Some latest \<Rightarrow>
          js_gt (parseFloat rt (outdoor_temp latest)) (parseFloat rt (indoor_temp latest))
      | None \<Rightarrow> False)"

subsection \<open>The reading nearest to 24 hours before the latest one\<close>

text \<open>
  \<^verbatim>\<open>new Date(currentTime.getTime() - 24 * 60 * 60 * 1000)\<close>, as the time value the scan reads
  back with \<^verbatim>\<open>getTime()\<close>; the argument is the time value of the current reading. The
  constructor clips: a current reading in the first 24 hours of the range of \<^verbatim>\<open>Date\<close> gives
  an invalid date.
\<close>

definition twentyFourHoursAgo :: "jsnum \<Rightarrow> jsnum" where
  "twentyFourHoursAgo currentTime = TimeClip (js_sub currentTime (Fin (24 * 60 * 60 * 1000)))"

text \<open>
  The callback of the \<^verbatim>\<open>reduce\<close>: it keeps \<open>closest\<close> unless \<open>reading\<close> is strictly nearer to
  the target.
\<close>

definition closer :: "js_runtime \<Rightarrow> jsnum \<Rightarrow> TemperatureReading \<Rightarrow> TemperatureReading
    \<Rightarrow> TemperatureReading" where
  "closer rt target closest reading =
     (let readingTime = Date_getTime rt (timestamp reading);
          closestTime = Date_getTime rt (timestamp closest);
          readingDiff = Math_abs (js_sub readingTime target);
          closestDiff = Math_abs (js_sub closestTime target)
      in if js_lt readingDiff closestDiff then reading else closest)"

text \<open>
  \<^verbatim>\<open>const reading24hAgo = data.reduce(..., data[0])\<close>, for a target time value. On the empty
  array the initial value \<^verbatim>\<open>data[0]\<close> is \<^verbatim>\<open>undefined\<close> and is returned as it is.
\<close>

definition reading24hAgo :: "js_runtime \<Rightarrow> jsnum \<Rightarrow> TemperatureReading list
    \<Rightarrow> TemperatureReading option" where
  "reading24hAgo rt target data =
     (case js_index data 0 of
        None \<Rightarrow> None
      | Some first \<Rightarrow> Some (reduce (closer rt target) data first))"

subsection \<open>The difference shown under each temperature\<close>

text \<open>
  \<^verbatim>\<open>get24hDifference(currentTemp, isIndoor)\<close> of src/app/page.tsx (the first component of
  src/unnamed/part_000 has the same body). \<^verbatim>\<open>null\<close> is \<open>None\<close>.
\<close>

definition get24hDifference :: "js_runtime \<Rightarrow> TemperatureReading list \<Rightarrow> string \<Rightarrow> bool
    \<Rightarrow> jsnum option" where
  "get24hDifference rt data currentTemp isIndoor =
     (case latestReading data of
        None \<Rightarrow> None
      | Some latest \<Rightarrow>
          (let currentTime = Date_getTime rt (timestamp latest) in
           case reading24hAgo rt (twentyFourHoursAgo currentTime) data of
             None \<Rightarrow> None
           | Some r \<Rightarrow>
               (let current = parseFloat rt currentTemp;
                    past = parseFloat rt (if isIndoor then indoor_temp r else outdoor_temp r);
                    diff = js_sub past current
                in Some diff)))"

text \<open>
  The second component of src/unnamed/part_000 subtracts the other way round and returns
  \<^verbatim>\<open>{ absoluteDiff: Math.abs(diff), isIncrease: diff > 0 }\<close>.
\<close>

record diff_info =
  absoluteDiff :: jsnum
  isIncrease :: bool

definition get24hDifference_abs :: "js_runtime \<Rightarrow> TemperatureReading list \<Rightarrow> string \<Rightarrow> bool
    \<Rightarrow> diff_info option" where
  "get24hDifference_abs rt data currentTemp isIndoor =
     (case latestReading data of
        None \<Rightarrow> None
      | Some latest \<Rightarrow>
          (let currentTime = Date_getTime rt (timestamp latest) in
           case reading24hAgo rt (twentyFourHoursAgo currentTime) data of
             None \<Rightarrow> None
           | Some r \<Rightarrow>
               (let current = parseFloat rt currentTemp;
                    past = parseFloat rt (if isIndoor then indoor_temp r else outdoor_temp r);
                    diff = js_sub current past
                in Some \<lparr>absoluteDiff = Math_abs diff, isIncrease = js_gt diff (Fin 0)\<rparr>)))"

subsection \<open>What the table shows\<close>

text \<open>
  \<^verbatim>\<open>{latestReading ? parseFloat(latestReading.indoor_temp).toFixed(1) : '--'}\<close> and the same
  for the outdoor temperature.
\<close>

definition indoorValue :: "js_runtime \<Rightarrow> TemperatureReading list \<Rightarrow> string" where
  "indoorValue rt data =
     (case latestReading data of
        Some latest \<Rightarrow> toFixed1 rt (parseFloat rt (indoor_temp latest))
      | None \<Rightarrow> ''--'')"

definition outdoorValue :: "js_runtime \<Rightarrow> TemperatureReading list \<Rightarrow> string" where
  "outdoorValue rt data =
     (case latestReading data of
        Some latest \<Rightarrow> toFixed1 rt (parseFloat rt (outdoor_temp latest))
      | None \<Rightarrow> ''--'')"

text \<open>
  The annotation under a temperature is either the empty string (\<open>NoDelta\<close>) or a span
  that prints \<^verbatim>\<open>(-diff).toFixed(1)\<close>, then one of two words ("more" when
  \<^verbatim>\<open>diff < 0\<close>, "less" otherwise), then \<^verbatim>\<open>' que ayer'\<close>. \<open>Delta text more\<close> holds
  the printed magnitude and whether \<^verbatim>\<open>diff < 0\<close>, which also picks the colour.
\<close>

datatype delta_cell = NoDelta | Delta string bool

text \<open>
  \<^verbatim>\<open>{latestReading && data.length > 1 ? (() => { const diff = get24hDifference(
     latestReading.indoor_temp, true); return diff !== null ? ... : '' })() : ''}\<close>
\<close>

definition indoorDelta :: "js_runtime \<Rightarrow> TemperatureReading list \<Rightarrow> delta_cell" where
  "indoorDelta rt data =
     (case latestReading data of
        None \<Rightarrow> NoDelta
      | Some latest \<Rightarrow>
          if length data > 1 then
            (case get24hDifference rt data (indoor_temp latest) True of
               Some diff \<Rightarrow> Delta (toFixed1 rt (js_neg diff)) (js_lt diff (Fin 0))
             | None \<Rightarrow> NoDelta)
          else NoDelta)"

definition outdoorDelta :: "js_runtime \<Rightarrow> TemperatureReading list \<Rightarrow> delta_cell" where
  "outdoorDelta rt data =
     (case latestReading data of
        None \<Rightarrow> NoDelta
      | Some latest \<Rightarrow>
          if length data > 1 then
            (case get24hDifference rt data (outdoor_temp latest) False of
               Some diff \<Rightarrow> Delta (toFixed1 rt (js_neg diff)) (js_lt diff (Fin 0))
             | None \<Rightarrow> NoDelta)
          else NoDelta)"

subsection \<open>The chart's time window\<close>

text \<open>
  \<^verbatim>\<open>formatData\<close> reads the clock (\<^verbatim>\<open>new Date()\<close>) and the state \<^verbatim>\<open>timeRange\<close>; both are
  arguments here, \<open>now\<close> being the clock's time value in milliseconds. The clock shows the
  present moment, so \<open>now\<close> less a day or a week is an integer far inside the range of
  \<^verbatim>\<open>Date\<close>, where the constructor returns its argument.
\<close>

definition cutoffTime :: "real \<Rightarrow> timeRange \<Rightarrow> jsnum" where
  "cutoffTime now timeRange =
     (if timeRange = T24h
      then js_sub (Fin now) (Fin (24 * 60 * 60 * 1000))
      else js_sub (Fin now) (Fin (7 * 24 * 60 * 60 * 1000)))"

text \<open>
  \<^verbatim>\<open>data.filter(reading => new Date(reading.timestamp) >= cutoffTime)\<close>: the comparison of two
  dates compares their time values.
\<close>

definition filteredData :: "js_runtime \<Rightarrow> real \<Rightarrow> timeRange \<Rightarrow> TemperatureReading list
    \<Rightarrow> TemperatureReading list" where
  "filteredData rt now timeRange data =
     filter (\<lambda>reading. js_ge (Date_getTime rt (timestamp reading)) (cutoffTime now timeRange)) data"

record chart_point =
  time_label :: string
  outdoor :: jsnum
  indoor :: jsnum

definition toPoint :: "js_runtime \<Rightarrow> TemperatureReading \<Rightarrow> chart_point" where
  "toPoint rt reading =
     \<lparr>time_label = toLocaleString rt (Date_getTime rt (timestamp reading)),
      outdoor = parseFloat rt (outdoor_temp reading),
      indoor = parseFloat rt (indoor_temp reading)\<rparr>"

definition formatData :: "js_runtime \<Rightarrow> real \<Rightarrow> timeRange \<Rightarrow> TemperatureReading list
    \<Rightarrow> chart_point list" where
  "formatData rt now timeRange data = map (toPoint rt) (filteredData rt now timeRange data)"


text \<open>A sequence is ascending when each reading's time value is \<^verbatim>\<open><=\<close> those after it.\<close>

definition ascending :: "js_runtime \<Rightarrow> TemperatureReading list \<Rightarrow> bool" where
  "ascending rt data =
     sorted_wrt (\<lambda>a b. js_le (Date_getTime rt (timestamp a)) (Date_getTime rt (timestamp b))) data"

section \<open>Example data\<close>

text \<open>
  A runtime for the examples. Each function below lists the built-in's result at the strings
  and numbers the examples use and nowhere else: \<^verbatim>\<open>new Date('2025-07-01T12:00:00Z').getTime()\<close>
  is \<open>1751371200000\<close>, \<^verbatim>\<open>parseFloat('20.0')\<close> is \<open>20\<close>, \<^verbatim>\<open>parseFloat('')\<close> is \<open>NaN\<close>,
  \<^verbatim>\<open>(3).toFixed(1)\<close> is \<^verbatim>\<open>'3.0'\<close>, and so on.
\<close>

definition demo_getTime :: "string \<Rightarrow> jsnum" where
  "demo_getTime s =
     (if s = ''-271821-04-20T00:00:00.000Z'' then Fin (- 8640000000000000)
      else if s = ''-271821-04-20T12:00:00.000Z'' then Fin (- 8639999956800000)
      else if s = ''2025-06-22T12:00:00Z'' then Fin 1750593600000
      else if s = ''2025-06-27T12:00:00Z'' then Fin 1751025600000
      else if s = ''2025-07-01T11:00:00Z'' then Fin 1751367600000
      else if s = ''2025-07-01T12:00:00Z'' then Fin 1751371200000
      else if s = ''2025-07-01T13:00:00Z'' then Fin 1751374800000
      else if s = ''2025-07-02T12:00:00Z'' then Fin 1751457600000
      else NaN)"

definition demo_parseFloat :: "string \<Rightarrow> jsnum" where
  "demo_parseFloat s =
     (if s = ''18.0'' then Fin 18
      else if s = ''19.0'' then Fin 19
      else if s = ''20.0'' then Fin 20
      else if s = ''21.0'' then Fin 21
      else if s = ''22.0'' then Fin 22
      else if s = ''23.0'' then Fin 23
      else if s = ''24.0'' then Fin 24
      else if s = ''26.0'' then Fin 26
      else NaN)"

definition demo_toFixed :: "real \<Rightarrow> string" where
  "demo_toFixed x =
     (if x = 0 then ''0.0''
      else if x = 3 then ''3.0''
      else if x = -3 then ''-3.0''
      else if x = 23 then ''23.0''
      else if x = 26 then ''26.0''
      else ''?'')"

definition demo_rt :: js_runtime where
  "demo_rt = \<lparr>Date_parse = demo_getTime, parseFloat = demo_parseFloat,
     toFixed1_finite = demo_toFixed, toLocaleString = (\<lambda>t. [])\<rparr>"

text \<open>
  Six readings in ascending order. The latest is \<open>r_latest\<close>; \<open>r_exact\<close> is exactly 24 hours
  before it, \<open>r_before\<close> and \<open>r_after\<close> one hour before and after that instant.
\<close>

definition r_old :: TemperatureReading where
  "r_old = \<lparr>id_field = ''1'', timestamp = ''2025-06-22T12:00:00Z'', outdoor_temp = ''18.0'',
     indoor_temp = ''21.0'', temp_differential = ''-3.0''\<rparr>"

definition r_week :: TemperatureReading where
  "r_week = \<lparr>id_field = ''2'', timestamp = ''2025-06-27T12:00:00Z'', outdoor_temp = ''19.0'',
     indoor_temp = ''22.0'', temp_differential = ''-3.0''\<rparr>"

definition r_before :: TemperatureReading where
  "r_before = \<lparr>id_field = ''3'', timestamp = ''2025-07-01T11:00:00Z'', outdoor_temp = ''22.0'',
     indoor_temp = ''21.0'', temp_differential = ''1.0''\<rparr>"

definition r_exact :: TemperatureReading where
  "r_exact = \<lparr>id_field = ''4'', timestamp = ''2025-07-01T12:00:00Z'', outdoor_temp = ''24.0'',
     indoor_temp = ''20.0'', temp_differential = ''4.0''\<rparr>"

definition r_after :: TemperatureReading where
  "r_after = \<lparr>id_field = ''5'', timestamp = ''2025-07-01T13:00:00Z'', outdoor_temp = ''24.0'',
     indoor_temp = ''22.0'', temp_differential = ''2.0''\<rparr>"

definition r_latest :: TemperatureReading where
  "r_latest = \<lparr>id_field = ''6'', timestamp = ''2025-07-02T12:00:00Z'', outdoor_temp = ''26.0'',
     indoor_temp = ''23.0'', temp_differential = ''3.0''\<rparr>"


definition r_noon :: TemperatureReading where
  "r_noon = \<lparr>id_field = ''9'', timestamp = ''-271821-04-20T12:00:00.000Z'',
     outdoor_temp = ''26.0'', indoor_temp = ''23.0'', temp_differential = ''3.0''\<rparr>"

text \<open>A latest reading whose indoor temperature is the empty string.\<close>

definition r_malformed :: TemperatureReading where
  "r_malformed = \<lparr>id_field = ''7'', timestamp = ''2025-07-02T12:00:00Z'', outdoor_temp = ''26.0'',
     indoor_temp = [], temp_differential = []\<rparr>"

text \<open>The time value of each example reading, and the clock of the examples (13:00 on 2 July).\<close>

definition demo_ms :: "TemperatureReading \<Rightarrow> real" where
  "demo_ms r = (case demo_getTime (timestamp r) of Fin t \<Rightarrow> t | _ \<Rightarrow> 0)"

definition demo_now :: real where
  "demo_now = 1751461200000"

section \<open>Evaluating the examples\<close>

lemmas demo_defs = demo_rt_def demo_getTime_def demo_parseFloat_def demo_toFixed_def
  r_old_def r_week_def r_before_def r_exact_def r_after_def r_latest_def
  demo_now_def demo_ms_def Date_getTime_def js_trunc_def

lemmas page_defs = get24hDifference_def latestReading_def js_index_def reading24hAgo_def
  reduce_def closer_def twentyFourHoursAgo_def Let_def js_gt_def js_ge_def js_le_def

section \<open>Array access and the scan\<close>

lemma closer_same: "closer rt t c c = c"
  by (simp add: closer_def Let_def)

lemma latestReading_eq: "latestReading data = (if data = [] then None else Some (last data))"
  by (auto simp: latestReading_def js_index_def last_conv_nth nat_diff_distrib' )

lemma js_index_0: "js_index data 0 = (case data of [] \<Rightarrow> None | x # _ \<Rightarrow> Some x)"
  by (simp add: js_index_def split: list.splits)

lemma foldl_closer_mem: "foldl (closer rt t) c xs \<in> insert c (set xs)"
proof (induction xs arbitrary: c)
  case Nil
  show ?case by simp
next
  case (Cons x xs)
  have "closer rt t c x = c \<or> closer rt t c x = x"
    by (simp add: closer_def Let_def)
  with Cons.IH [of "closer rt t c x"] show ?case by auto
qed

lemma closer_valid:
  assumes "Date_getTime rt (timestamp c) = Fin (tm c)" "Date_getTime rt (timestamp x) = Fin (tm x)"
  shows "closer rt (Fin tg) c x = (if \<bar>tm x - tg\<bar> < \<bar>tm c - tg\<bar> then x else c)"
  using assms by (simp add: closer_def Let_def)

lemma foldl_closer_first:
  assumes "\<forall>r \<in> set (c # xs). Date_getTime rt (timestamp r) = Fin (tm r)"
  shows "(foldl (closer rt (Fin tg)) c xs = c \<and> (\<forall>x \<in> set xs. \<bar>tm c - tg\<bar> \<le> \<bar>tm x - tg\<bar>))
     \<or> (\<exists>ys r zs. xs = ys @ r # zs \<and> foldl (closer rt (Fin tg)) c xs = r
          \<and> \<bar>tm r - tg\<bar> < \<bar>tm c - tg\<bar>
          \<and> (\<forall>y \<in> set ys. \<bar>tm r - tg\<bar> < \<bar>tm y - tg\<bar>)
          \<and> (\<forall>z \<in> set zs. \<bar>tm r - tg\<bar> \<le> \<bar>tm z - tg\<bar>))"
  using assms
proof (induction xs arbitrary: c)
  case Nil
  show ?case by simp
next
  case (Cons x xs)
  let ?d = "\<lambda>r. \<bar>tm r - tg\<bar>"
  let ?f = "closer rt (Fin tg)"
  have vc: "Date_getTime rt (timestamp c) = Fin (tm c)"
    and vx: "Date_getTime rt (timestamp x) = Fin (tm x)"
    and vxs: "\<forall>r \<in> set xs. Date_getTime rt (timestamp r) = Fin (tm r)"
    using Cons.prems by simp_all
  show ?case
  proof (cases "?d x < ?d c")
    case True
    then have step: "?f c x = x" using closer_valid [OF vc vx] by simp
    have "\<forall>r \<in> set (x # xs). Date_getTime rt (timestamp r) = Fin (tm r)"
      using vx vxs by simp
    from Cons.IH [OF this]
    consider (keep) "foldl ?f x xs = x" "\<forall>y \<in> set xs. ?d x \<le> ?d y"
      | (move) ys r zs where "xs = ys @ r # zs" "foldl ?f x xs = r" "?d r < ?d x"
          "\<forall>y \<in> set ys. ?d r < ?d y" "\<forall>z \<in> set zs. ?d r \<le> ?d z"
      by blast
    then show ?thesis
    proof cases
      case keep
      have "x # xs = [] @ x # xs \<and> foldl ?f c (x # xs) = x \<and> ?d x < ?d c
          \<and> (\<forall>y \<in> set []. ?d x < ?d y) \<and> (\<forall>z \<in> set xs. ?d x \<le> ?d z)"
        using keep True step by simp
      then show ?thesis by blast
    next
      case move
      have "x # xs = (x # ys) @ r # zs \<and> foldl ?f c (x # xs) = r \<and> ?d r < ?d c
          \<and> (\<forall>y \<in> set (x # ys). ?d r < ?d y) \<and> (\<forall>z \<in> set zs. ?d r \<le> ?d z)"
        using move True step by simp
      then show ?thesis by blast
    qed
  next
    case False
    then have step: "?f c x = c" using closer_valid [OF vc vx] by simp
    have "\<forall>r \<in> set (c # xs). Date_getTime rt (timestamp r) = Fin (tm r)"
      using vc vxs by simp
    from Cons.IH [OF this]
    consider (keep) "foldl ?f c xs = c" "\<forall>y \<in> set xs. ?d c \<le> ?d y"
      | (move) ys r zs where "xs = ys @ r # zs" "foldl ?f c xs = r" "?d r < ?d c"
          "\<forall>y \<in> set ys. ?d r < ?d y" "\<forall>z \<in> set zs. ?d r \<le> ?d z"
      by blast
    then show ?thesis
    proof cases
      case keep
      then show ?thesis using False step by simp
    next
      case move
      have "x # xs = (x # ys) @ r # zs \<and> foldl ?f c (x # xs) = r \<and> ?d r < ?d c
          \<and> (\<forall>y \<in> set (x # ys). ?d r < ?d y) \<and> (\<forall>z \<in> set zs. ?d r \<le> ?d z)"
        using move False step by simp
      then show ?thesis by blast
    qed
  qed
qed

lemma nearest_split:
  assumes ne: "data \<noteq> []"
    and valid: "\<forall>r \<in> set data. Date_getTime rt (timestamp r) = Fin (tm r)"
  shows "\<exists>ys r zs. data = ys @ r # zs \<and> reading24hAgo rt (Fin tg) data = Some r
          \<and> (\<forall>y \<in> set ys. \<bar>tm r - tg\<bar> < \<bar>tm y - tg\<bar>)
          \<and> (\<forall>z \<in> set zs. \<bar>tm r - tg\<bar> \<le> \<bar>tm z - tg\<bar>)"
proof -
  let ?d = "\<lambda>r. \<bar>tm r - tg\<bar>"
  let ?f = "closer rt (Fin tg)"
  from ne obtain c xs where data: "data = c # xs" by (cases data) auto
  have res: "reading24hAgo rt (Fin tg) data = Some (foldl ?f c xs)"
    by (simp add: reading24hAgo_def js_index_0 data reduce_def closer_same)
  from valid data have v: "\<forall>r \<in> set (c # xs). Date_getTime rt (timestamp r) = Fin (tm r)"
    by simp
  from foldl_closer_first [OF v, of tg]
  consider (keep) "foldl ?f c xs = c" "\<forall>y \<in> set xs. ?d c \<le> ?d y"
    | (move) ys r zs where "xs = ys @ r # zs" "foldl ?f c xs = r" "?d r < ?d c"
        "\<forall>y \<in> set ys. ?d r < ?d y" "\<forall>z \<in> set zs. ?d r \<le> ?d z"
    by blast
  then show ?thesis
  proof cases
    case keep
    have "data = [] @ c # xs \<and> reading24hAgo rt (Fin tg) data = Some c
        \<and> (\<forall>y \<in> set []. ?d c < ?d y) \<and> (\<forall>z \<in> set xs. ?d c \<le> ?d z)"
      using keep res data by simp
    then show ?thesis by blast
  next
    case move
    have "data = (c # ys) @ r # zs \<and> reading24hAgo rt (Fin tg) data = Some r
        \<and> (\<forall>y \<in> set (c # ys). ?d r < ?d y) \<and> (\<forall>z \<in> set zs. ?d r \<le> ?d z)"
      using move res data by simp
    then show ?thesis by blast
  qed
qed

lemma js_sub_NaN_right: "js_sub a NaN = NaN"
  by (cases a) simp_all

lemma js_trunc_of_int: "js_trunc (of_int k) = of_int k"
  by (simp add: js_trunc_def)

lemma js_trunc_bound:
  assumes "\<bar>t\<bar> \<le> b"
  shows "- b \<le> js_trunc t \<and> js_trunc t \<le> b"
proof (cases "0 \<le> t")
  case True
  then have "0 \<le> (of_int \<lfloor>t\<rfloor> :: real)" and "of_int \<lfloor>t\<rfloor> \<le> t"
    by simp_all
  moreover have "js_trunc t = of_int \<lfloor>t\<rfloor>"
    using True by (simp add: js_trunc_def)
  ultimately show ?thesis using assms by linarith
next
  case False
  then have "(of_int \<lceil>t\<rceil> :: real) \<le> 0" and "t \<le> of_int \<lceil>t\<rceil>"
    by (simp_all add: ceiling_le_iff)
  moreover have "js_trunc t = of_int \<lceil>t\<rceil>"
    using False by (simp add: js_trunc_def)
  ultimately show ?thesis using assms by linarith
qed

lemma TimeClip_Fin:
  assumes "TimeClip a = Fin c"
  shows "- 8640000000000000 \<le> c \<and> c \<le> 8640000000000000 \<and> js_trunc c = c"
proof (cases a)
  case (Fin t)
  with assms have t: "\<bar>t\<bar> \<le> 8640000000000000" and c: "c = js_trunc t"
    by (simp_all split: if_splits)
  have "js_trunc (js_trunc t) = js_trunc t"
    by (simp add: js_trunc_def)
  with js_trunc_bound [OF t] c show ?thesis by simp
qed (use assms in simp_all)

lemma Date_getTime_valid:
  "Date_getTime rt s = Fin c
    \<Longrightarrow> - 8640000000000000 \<le> c \<and> c \<le> 8640000000000000 \<and> js_trunc c = c"
  unfolding Date_getTime_def by (rule TimeClip_Fin)

lemma js_trunc_minus_day:
  assumes "js_trunc c = c"
  shows "js_trunc (c - 86400000) = c - 86400000"
proof -
  from assms obtain k :: int where "c = of_int k"
    by (auto simp: js_trunc_def split: if_splits)
  then have "c - 86400000 = of_int (k - 86400000)" by simp
  then show ?thesis by (simp only: js_trunc_of_int)
qed

lemma twentyFourHoursAgo_in_range:
  assumes "Date_getTime rt s = Fin c" and "- 8640000000000000 \<le> c - 86400000"
  shows "twentyFourHoursAgo (Date_getTime rt s) = Fin (c - 86400000)"
proof -
  from Date_getTime_valid [OF assms(1)]
  have "c \<le> 8640000000000000" and "js_trunc (c - 86400000) = c - 86400000"
    by (simp_all add: js_trunc_minus_day)
  moreover from this assms(2) have "\<bar>c - 86400000\<bar> \<le> 8640000000000000"
    by linarith
  ultimately show ?thesis using assms(1) by (simp add: twentyFourHoursAgo_def)
qed

lemma twentyFourHoursAgo_clipped:
  assumes "Date_getTime rt s = Fin c" and "\<not> - 8640000000000000 \<le> c - 86400000"
  shows "twentyFourHoursAgo (Date_getTime rt s) = NaN"
proof -
  from assms(2) have "8640000000000000 < \<bar>c - 86400000\<bar>" by linarith
  then show ?thesis using assms(1) by (simp add: twentyFourHoursAgo_def)
qed

lemma closer_NaN: "closer rt NaN c x = c"
  by (simp add: closer_def Let_def js_sub_NaN_right)

lemma foldl_closer_NaN: "foldl (closer rt NaN) c xs = c"
  by (induction xs) (simp_all add: closer_NaN)

lemma js_le_Fin: "js_le (Fin a) (Fin b) = (a \<le> b)"
  by (auto simp: js_le_def js_ge_def)

text \<open>
  The scan at the target the page computes from a current timestamp. Either the target is a
  valid date, and the scan finds the first nearest reading; or it is clipped to an invalid
  date, every comparison fails and the scan stays at the first reading, which is the nearest
  one when the sequence is ascending, since the target lies before every date.
\<close>

lemma nearest_at_target:
  assumes ne: "data \<noteq> []"
    and valid: "\<forall>r \<in> set data. Date_getTime rt (timestamp r) = Fin (tm r)"
    and cur: "Date_getTime rt current = Fin currentTime"
    and order: "ascending rt data \<or> - 8640000000000000 \<le> currentTime - 86400000"
  shows "\<exists>ys r zs. data = ys @ r # zs
      \<and> reading24hAgo rt (twentyFourHoursAgo (Date_getTime rt current)) data = Some r
      \<and> (\<forall>y \<in> set ys. \<bar>tm r - (currentTime - 86400000)\<bar> < \<bar>tm y - (currentTime - 86400000)\<bar>)
      \<and> (\<forall>z \<in> set zs. \<bar>tm r - (currentTime - 86400000)\<bar> \<le> \<bar>tm z - (currentTime - 86400000)\<bar>)"
proof (cases "- 8640000000000000 \<le> currentTime - 86400000")
  case True
  from nearest_split [OF ne valid, of "currentTime - 86400000"]
  show ?thesis by (simp only: twentyFourHoursAgo_in_range [OF cur True])
next
  case False
  let ?tg = "currentTime - 86400000"
  from ne obtain c xs where data: "data = c # xs" by (cases data) auto
  have target: "twentyFourHoursAgo (Date_getTime rt current) = NaN"
    by (rule twentyFourHoursAgo_clipped [OF cur False])
  have res: "reading24hAgo rt (twentyFourHoursAgo (Date_getTime rt current)) data = Some c"
    by (simp add: target reading24hAgo_def js_index_0 data reduce_def foldl_closer_NaN closer_NaN)
  from order False have "ascending rt (c # xs)" using data by simp
  then have "\<forall>z \<in> set xs. js_le (Date_getTime rt (timestamp c)) (Date_getTime rt (timestamp z))"
    by (simp add: ascending_def)
  then have le: "\<forall>z \<in> set xs. tm c \<le> tm z"
    using valid data by (simp add: js_le_Fin)
  have "Date_getTime rt (timestamp c) = Fin (tm c)" using valid data by simp
  from Date_getTime_valid [OF this] have low: "- 8640000000000000 \<le> tm c" by simp
  have far: "\<forall>z \<in> set xs. \<bar>tm c - ?tg\<bar> \<le> \<bar>tm z - ?tg\<bar>"
  proof
    fix z assume "z \<in> set xs"
    with le have "tm c \<le> tm z" by simp
    with low False show "\<bar>tm c - ?tg\<bar> \<le> \<bar>tm z - ?tg\<bar>" by linarith
  qed
  have "data = [] @ c # xs
      \<and> reading24hAgo rt (twentyFourHoursAgo (Date_getTime rt current)) data = Some c
      \<and> (\<forall>y \<in> set []. \<bar>tm c - ?tg\<bar> < \<bar>tm y - ?tg\<bar>)
      \<and> (\<forall>z \<in> set xs. \<bar>tm c - ?tg\<bar> \<le> \<bar>tm z - ?tg\<bar>)"
    using data res far by simp
  then show ?thesis by blast
qed

lemma js_neg_sub: "js_neg (js_sub a b) = js_sub b a"
  by (cases a; cases b) simp_all





section \<open>The nearest reading is one of the readings\<close>

text \<open>
  C9. For every non-empty reading sequence and every target, the nearest-reading lookup
  returns a reading, and that reading is an element of the sequence: the scan starts from
  the first element and at each step keeps its candidate or takes the element it looks at.
\<close>

theorem reading24hAgo_member:
  assumes "data \<noteq> []"
  shows "\<exists>r. reading24hAgo rt target data = Some r \<and> r \<in> set data"
proof -
  from assms obtain c xs where data: "data = c # xs" by (cases data) auto
  have "reading24hAgo rt target data = Some (foldl (closer rt target) c xs)"
    by (simp add: reading24hAgo_def js_index_0 data reduce_def closer_same)
  moreover have "foldl (closer rt target) c xs \<in> set data"
    using foldl_closer_mem [of rt target c xs] data by simp
  ultimately show ?thesis by blast
qed

theorem reading24hAgo_member_witness:
  "reading24hAgo demo_rt (Fin 1751371200000) [r_before, r_after, r_latest] = Some r_before
   \<and> r_before \<in> set [r_before, r_after, r_latest]"
proof -
  have ne: "[r_before, r_after, r_latest] \<noteq> []" by simp
  from reading24hAgo_member [OF ne, of demo_rt "Fin 1751371200000"]
  show ?thesis by (simp add: demo_defs page_defs)
qed

section \<open>The nearest reading minimises the distance\<close>



text \<open>
  Outside these hypotheses the scan does what the code does: with the readings out of order
  and the latest one at noon of the first day, the target is an invalid date and the first
  reading of the array is used, although the latest reading itself is nearer.
\<close>

lemma clipped_target_example:
  "reading24hAgo demo_rt (twentyFourHoursAgo (Date_getTime demo_rt (timestamp r_noon)))
      [r_exact, r_noon] = Some r_exact
   \<and> get24hDifference demo_rt [r_exact, r_noon] (indoor_temp r_noon) True = Some (Fin (- 3))"
  by (simp add: demo_defs page_defs r_noon_def)

section \<open>A reading exactly 24 hours before the latest\<close>

text \<open>
  C3. Let every timestamp of a non-empty sequence parse to an instant, and let the sequence
  contain a reading \<open>x\<close> exactly 24 hours before the latest reading. The lookup, with the
  target the page computes from the latest reading, returns a reading of the sequence with
  the time value of \<open>x\<close> (distance zero); it is \<open>x\<close> itself when no other reading of the
  sequence has that time value. The theorem does not need the sequence to be ascending.
\<close>

theorem reading24hAgo_exact:
  assumes ne: "data \<noteq> []"
    and valid: "\<forall>r \<in> set data. Date_getTime rt (timestamp r) = Fin (tm r)"
    and x: "x \<in> set data"
    and exact: "tm x = tm (last data) - 86400000"
  shows "\<exists>r. reading24hAgo rt (twentyFourHoursAgo (Date_getTime rt (timestamp (last data)))) data
        = Some r
      \<and> r \<in> set data
      \<and> Date_getTime rt (timestamp r) = Date_getTime rt (timestamp x)
      \<and> ((\<forall>y \<in> set data. Date_getTime rt (timestamp y) = Date_getTime rt (timestamp x) \<longrightarrow> y = x)
           \<longrightarrow> r = x)"
proof -
  let ?tg = "tm (last data) - 86400000"
  have "last data \<in> set data" using ne by simp
  then have cur: "Date_getTime rt (timestamp (last data)) = Fin (tm (last data))"
    using valid by simp
  have "Date_getTime rt (timestamp x) = Fin ?tg"
    using valid x exact by simp
  from Date_getTime_valid [OF this] have "- 8640000000000000 \<le> ?tg" by simp
  from twentyFourHoursAgo_in_range [OF cur this]
  have tgt: "twentyFourHoursAgo (Date_getTime rt (timestamp (last data))) = Fin ?tg" .
  from nearest_split [OF ne valid, of ?tg]
  obtain ys r zs where split: "data = ys @ r # zs"
    and res: "reading24hAgo rt (Fin ?tg) data = Some r"
    and before: "\<forall>y \<in> set ys. \<bar>tm r - ?tg\<bar> < \<bar>tm y - ?tg\<bar>"
    and after: "\<forall>z \<in> set zs. \<bar>tm r - ?tg\<bar> \<le> \<bar>tm z - ?tg\<bar>"
    by blast
  have zero: "\<bar>tm x - ?tg\<bar> = 0" using exact by simp
  have rmem: "r \<in> set data" using split by simp
  from x split have "x \<in> set ys \<or> x = r \<or> x \<in> set zs" by auto
  then have "\<bar>tm r - ?tg\<bar> \<le> 0"
  proof (elim disjE)
    assume "x \<in> set ys"
    with before zero show ?thesis by force
  next
    assume "x = r"
    with zero show ?thesis by simp
  next
    assume "x \<in> set zs"
    with after zero show ?thesis by force
  qed
  then have "tm r = tm x" using exact by simp
  then have same: "Date_getTime rt (timestamp r) = Date_getTime rt (timestamp x)"
    using valid rmem x by simp
  show ?thesis using res tgt rmem same by auto
qed

theorem reading24hAgo_exact_witness:
  "reading24hAgo demo_rt (twentyFourHoursAgo (Date_getTime demo_rt (timestamp r_latest)))
      [r_old, r_week, r_before, r_exact, r_after, r_latest] = Some r_exact
   \<and> demo_ms r_exact = demo_ms r_latest - 86400000"
proof -
  let ?data = "[r_old, r_week, r_before, r_exact, r_after, r_latest]"
  have ne: "?data \<noteq> []" by simp
  have valid: "\<forall>r \<in> set ?data. Date_getTime demo_rt (timestamp r) = Fin (demo_ms r)"
    by (simp add: demo_defs)
  have x: "r_exact \<in> set ?data" by simp
  have exact: "demo_ms r_exact = demo_ms (last ?data) - 86400000"
    by (simp add: demo_defs)
  from reading24hAgo_exact [OF ne valid x exact]
  show ?thesis by (simp add: demo_defs page_defs)
qed

section \<open>The value of the difference\<close>

text \<open>
  C1, as the claim states it, fails on src/app/page.tsx: with a reading of 20.0 indoors
  exactly 24 hours before a latest reading of 23.0, the claimed difference
  \<open>current - past\<close> is 3, and \<open>get24hDifference\<close> returns -3.
\<close>

theorem get24hDifference_sign_counterexample:
  "reading24hAgo demo_rt (twentyFourHoursAgo (Date_getTime demo_rt (timestamp r_latest)))
      [r_exact, r_latest] = Some r_exact
   \<and> get24hDifference demo_rt [r_exact, r_latest] (indoor_temp r_latest) True = Some (Fin (- 3))
   \<and> js_sub (parseFloat demo_rt (indoor_temp r_latest)) (parseFloat demo_rt (indoor_temp r_exact))
       = Fin 3
   \<and> get24hDifference demo_rt [r_exact, r_latest] (indoor_temp r_latest) True
       \<noteq> Some (js_sub (parseFloat demo_rt (indoor_temp r_latest))
                  (parseFloat demo_rt (indoor_temp r_exact)))"
  by (simp add: demo_defs page_defs)

text \<open>
  C1, amended. For every non-empty reading sequence, \<open>get24hDifference\<close> of src/app/page.tsx
  returns the signed difference \<open>past - current\<close>, the negation of \<open>current - past\<close>:
  \<open>current\<close> is the parsed argument and \<open>past\<close> the selected field of the reading \<open>r\<close>
  that the lookup returns for the latest timestamp. When the timestamps parse (\<open>tm x\<close> is
  the time value of \<open>x\<close>) and the sequence is ascending, or the instant 24 hours before the
  latest one is a date, \<open>r\<close> is the reading nearest to 24 hours before the latest
  timestamp, the first such in the order of the sequence. With two readings or more the
  page prints under each temperature the negation of what the function returns, that is
  \<open>current - past\<close>, and picks its word by \<open>past - current < 0\<close>. The variant in the second
  component of src/unnamed/part_000 computes \<open>current - past\<close> and returns its absolute
  value with the flag \<open>current - past > 0\<close>. Both return \<open>null\<close> when there is no
  reading.
\<close>

theorem get24hDifference_value:
  assumes "data \<noteq> []"
  shows "\<exists>r. reading24hAgo rt (twentyFourHoursAgo (Date_getTime rt (timestamp (last data)))) data
        = Some r
      \<and> ((\<forall>x \<in> set data. Date_getTime rt (timestamp x) = Fin (tm x))
            \<and> (ascending rt data \<or> - 8640000000000000 \<le> tm (last data) - 86400000)
          \<longrightarrow> (\<exists>ys zs. data = ys @ r # zs
                \<and> (\<forall>y \<in> set ys. \<bar>tm r - (tm (last data) - 86400000)\<bar>
                                  < \<bar>tm y - (tm (last data) - 86400000)\<bar>)
                \<and> (\<forall>z \<in> set zs. \<bar>tm r - (tm (last data) - 86400000)\<bar>
                                  \<le> \<bar>tm z - (tm (last data) - 86400000)\<bar>)))
      \<and> get24hDifference rt data currentTemp isIndoor
        = Some (js_sub (parseFloat rt (if isIndoor then indoor_temp r else outdoor_temp r))
                  (parseFloat rt currentTemp))
      \<and> get24hDifference_abs rt data currentTemp isIndoor
        = Some \<lparr>absoluteDiff = Math_abs (js_sub (parseFloat rt currentTemp)
                    (parseFloat rt (if isIndoor then indoor_temp r else outdoor_temp r))),
                isIncrease = js_gt (js_sub (parseFloat rt currentTemp)
                    (parseFloat rt (if isIndoor then indoor_temp r else outdoor_temp r))) (Fin 0)\<rparr>
      \<and> (1 < length data \<longrightarrow>
            indoorDelta rt data
              = Delta (toFixed1 rt (js_sub (parseFloat rt (indoor_temp (last data)))
                                      (parseFloat rt (indoor_temp r))))
                  (js_lt (js_sub (parseFloat rt (indoor_temp r))
                            (parseFloat rt (indoor_temp (last data)))) (Fin 0))
            \<and> outdoorDelta rt data
              = Delta (toFixed1 rt (js_sub (parseFloat rt (outdoor_temp (last data)))
                                      (parseFloat rt (outdoor_temp r))))
                  (js_lt (js_sub (parseFloat rt (outdoor_temp r))
                            (parseFloat rt (outdoor_temp (last data)))) (Fin 0)))
      \<and> get24hDifference rt [] currentTemp isIndoor = None
      \<and> get24hDifference_abs rt [] currentTemp isIndoor = None"
proof -
  let ?tg = "twentyFourHoursAgo (Date_getTime rt (timestamp (last data)))"
  from assms obtain c xs where data: "data = c # xs" by (cases data) auto
  define r where "r = foldl (closer rt ?tg) c xs"
  have res: "reading24hAgo rt ?tg data = Some r"
    by (simp add: r_def reading24hAgo_def js_index_0 reduce_def closer_same data)
  have latest: "latestReading data = Some (last data)"
    using assms by (simp add: latestReading_eq)
  have near: "(\<forall>x \<in> set data. Date_getTime rt (timestamp x) = Fin (tm x))
        \<and> (ascending rt data \<or> - 8640000000000000 \<le> tm (last data) - 86400000)
      \<longrightarrow> (\<exists>ys zs. data = ys @ r # zs
            \<and> (\<forall>y \<in> set ys. \<bar>tm r - (tm (last data) - 86400000)\<bar>
                              < \<bar>tm y - (tm (last data) - 86400000)\<bar>)
            \<and> (\<forall>z \<in> set zs. \<bar>tm r - (tm (last data) - 86400000)\<bar>
                              \<le> \<bar>tm z - (tm (last data) - 86400000)\<bar>))"
  proof
    assume h: "(\<forall>x \<in> set data. Date_getTime rt (timestamp x) = Fin (tm x))
        \<and> (ascending rt data \<or> - 8640000000000000 \<le> tm (last data) - 86400000)"
    then have valid: "\<forall>x \<in> set data. Date_getTime rt (timestamp x) = Fin (tm x)"
      and order: "ascending rt data \<or> - 8640000000000000 \<le> tm (last data) - 86400000"
      by simp_all
    have "last data \<in> set data" using assms by simp
    with valid have cur: "Date_getTime rt (timestamp (last data)) = Fin (tm (last data))"
      by simp
    from nearest_at_target [OF assms valid cur order]
    obtain ys r' zs where split: "data = ys @ r' # zs"
      and res': "reading24hAgo rt ?tg data = Some r'"
      and before: "\<forall>y \<in> set ys. \<bar>tm r' - (tm (last data) - 86400000)\<bar>
                                < \<bar>tm y - (tm (last data) - 86400000)\<bar>"
      and after: "\<forall>z \<in> set zs. \<bar>tm r' - (tm (last data) - 86400000)\<bar>
                               \<le> \<bar>tm z - (tm (last data) - 86400000)\<bar>"
      by blast
    from res res' have "r' = r" by simp
    with split before after show "\<exists>ys zs. data = ys @ r # zs
        \<and> (\<forall>y \<in> set ys. \<bar>tm r - (tm (last data) - 86400000)\<bar>
                          < \<bar>tm y - (tm (last data) - 86400000)\<bar>)
        \<and> (\<forall>z \<in> set zs. \<bar>tm r - (tm (last data) - 86400000)\<bar>
                          \<le> \<bar>tm z - (tm (last data) - 86400000)\<bar>)"
      by blast
  qed
  have val: "get24hDifference rt data s b
      = Some (js_sub (parseFloat rt (if b then indoor_temp r else outdoor_temp r))
                (parseFloat rt s))" for s b
    using res latest by (simp add: get24hDifference_def Let_def)
  have val_abs: "get24hDifference_abs rt data currentTemp isIndoor
      = Some \<lparr>absoluteDiff = Math_abs (js_sub (parseFloat rt currentTemp)
                  (parseFloat rt (if isIndoor then indoor_temp r else outdoor_temp r))),
              isIncrease = js_gt (js_sub (parseFloat rt currentTemp)
                  (parseFloat rt (if isIndoor then indoor_temp r else outdoor_temp r))) (Fin 0)\<rparr>"
    using res latest by (simp add: get24hDifference_abs_def Let_def)
  have cells: "1 < length data \<longrightarrow>
        indoorDelta rt data
          = Delta (toFixed1 rt (js_sub (parseFloat rt (indoor_temp (last data)))
                                  (parseFloat rt (indoor_temp r))))
              (js_lt (js_sub (parseFloat rt (indoor_temp r))
                        (parseFloat rt (indoor_temp (last data)))) (Fin 0))
        \<and> outdoorDelta rt data
          = Delta (toFixed1 rt (js_sub (parseFloat rt (outdoor_temp (last data)))
                                  (parseFloat rt (outdoor_temp r))))
              (js_lt (js_sub (parseFloat rt (outdoor_temp r))
                        (parseFloat rt (outdoor_temp (last data)))) (Fin 0))"
    using latest by (simp add: indoorDelta_def outdoorDelta_def val js_neg_sub)
  have e1: "get24hDifference rt [] currentTemp isIndoor = None"
    by (simp add: get24hDifference_def latestReading_eq)
  have e2: "get24hDifference_abs rt [] currentTemp isIndoor = None"
    by (simp add: get24hDifference_abs_def latestReading_eq)
  from res near val [of currentTemp isIndoor] val_abs cells e1 e2
  show ?thesis by blast
qed

theorem get24hDifference_value_witness:
  "get24hDifference demo_rt [r_before, r_exact, r_latest] (outdoor_temp r_latest) False
     = Some (Fin (- 2))
   \<and> get24hDifference_abs demo_rt [r_before, r_exact, r_latest] (outdoor_temp r_latest) False
       = Some \<lparr>absoluteDiff = Fin 2, isIncrease = True\<rparr>
   \<and> indoorDelta demo_rt [r_before, r_exact, r_latest] = Delta ''3.0'' True
   \<and> reading24hAgo demo_rt (twentyFourHoursAgo (Date_getTime demo_rt (timestamp r_latest)))
       [r_before, r_exact, r_latest] = Some r_exact
   \<and> \<bar>demo_ms r_exact - (demo_ms r_latest - 86400000)\<bar> = 0"
proof -
  let ?data = "[r_before, r_exact, r_latest]"
  have ne: "?data \<noteq> []" by simp
  have valid: "\<forall>x \<in> set ?data. Date_getTime demo_rt (timestamp x) = Fin (demo_ms x)"
    by (simp add: demo_defs)
  have order: "ascending demo_rt ?data \<or> - 8640000000000000 \<le> demo_ms (last ?data) - 86400000"
    by (simp add: demo_defs)
  from get24hDifference_value [OF ne, of demo_rt demo_ms "outdoor_temp r_latest" False]
    valid order
  show ?thesis
    by (simp add: demo_defs page_defs get24hDifference_abs_def indoorDelta_def)
qed

section \<open>The window recommendation\<close>

text \<open>
  C4. With at least one reading, the recommendation depends on the latest reading only: it
  is "close windows" exactly when the parsed outdoor temperature of the latest reading is
  strictly greater (JavaScript \<^verbatim>\<open>>\<close>) than its parsed indoor temperature, which for finite
  values is \<open>indoor < outdoor\<close>; when the two are equal the windows may stay open; and two
  sequences with the same latest reading get the same recommendation.
\<close>

theorem shouldCloseWindows_latest:
  assumes "data \<noteq> []"
  shows "(shouldCloseWindows rt data
        \<longleftrightarrow> js_gt (parseFloat rt (outdoor_temp (last data))) (parseFloat rt (indoor_temp (last data))))
      \<and> (\<forall>out ind. parseFloat rt (outdoor_temp (last data)) = Fin out
            \<and> parseFloat rt (indoor_temp (last data)) = Fin ind
            \<longrightarrow> (shouldCloseWindows rt data \<longleftrightarrow> ind < out))
      \<and> (parseFloat rt (outdoor_temp (last data)) = parseFloat rt (indoor_temp (last data))
            \<longrightarrow> \<not> shouldCloseWindows rt data)
      \<and> (\<forall>data'. data' \<noteq> [] \<and> last data' = last data
            \<longrightarrow> shouldCloseWindows rt data' = shouldCloseWindows rt data)"
proof -
  have js_gt_irrefl: "\<not> js_gt a a" for a
    by (cases a) (simp_all add: js_gt_def)
  have eq: "shouldCloseWindows rt d
      = js_gt (parseFloat rt (outdoor_temp (last d))) (parseFloat rt (indoor_temp (last d)))"
    if "d \<noteq> []" for d
    using that by (simp add: shouldCloseWindows_def latestReading_eq)
  show ?thesis
    using eq [OF assms] eq js_gt_irrefl by (auto simp: js_gt_def)
qed

theorem shouldCloseWindows_latest_witness:
  "shouldCloseWindows demo_rt [r_exact, r_latest]
   \<and> js_gt (parseFloat demo_rt (outdoor_temp r_latest)) (parseFloat demo_rt (indoor_temp r_latest))
   \<and> \<not> shouldCloseWindows demo_rt [r_latest, r_old]
   \<and> \<not> shouldCloseWindows demo_rt
        [r_latest\<lparr>outdoor_temp := ''23.0''\<rparr>]"
proof -
  have ne: "[r_exact, r_latest] \<noteq> []" by simp
  from shouldCloseWindows_latest [OF ne, of demo_rt]
  show ?thesis by (simp add: demo_defs page_defs shouldCloseWindows_def)
qed

section \<open>Fewer than two readings\<close>

text \<open>
  C5, as the claim states it, fails for a single reading: \<open>get24hDifference\<close> does not
  return \<open>null\<close> there. Called as the page calls it, with the indoor temperature of the only
  reading, it returns 0.
\<close>

theorem get24hDifference_single_counterexample:
  "length [r_latest] < 2
   \<and> get24hDifference demo_rt [r_latest] (indoor_temp r_latest) True = Some (Fin 0)
   \<and> get24hDifference demo_rt [r_latest] (indoor_temp r_latest) True \<noteq> None"
  by (simp add: demo_defs page_defs)

text \<open>
  C5, amended. For every reading sequence with fewer than two elements neither annotation
  is displayed: the page tests \<^verbatim>\<open>data.length > 1\<close> before it calls \<open>get24hDifference\<close>.
  The function itself returns \<open>null\<close> for the empty sequence and, for a single reading,
  the difference between that reading's selected field and the current value. In both
  cases it returns a value: every property it reads is read from a value it has tested.
\<close>

theorem no_delta_below_two_readings:
  assumes "length data < 2"
  shows "indoorDelta rt data = NoDelta
      \<and> outdoorDelta rt data = NoDelta
      \<and> (data = [] \<longrightarrow> get24hDifference rt data currentTemp isIndoor = None)
      \<and> (\<forall>r. data = [r] \<longrightarrow> get24hDifference rt data currentTemp isIndoor
            = Some (js_sub (parseFloat rt (if isIndoor then indoor_temp r else outdoor_temp r))
                      (parseFloat rt currentTemp)))"
proof -
  have "\<not> 1 < length data" using assms by simp
  then have cells: "indoorDelta rt data = NoDelta \<and> outdoorDelta rt data = NoDelta"
    by (simp add: indoorDelta_def outdoorDelta_def split: option.splits)
  have empty: "get24hDifference rt [] currentTemp isIndoor = None"
    by (simp add: get24hDifference_def latestReading_eq)
  have single: "get24hDifference rt [r] currentTemp isIndoor
      = Some (js_sub (parseFloat rt (if isIndoor then indoor_temp r else outdoor_temp r))
                (parseFloat rt currentTemp))" for r
    by (simp add: get24hDifference_def latestReading_eq reading24hAgo_def js_index_0
        reduce_def closer_same Let_def)
  show ?thesis using cells empty single by simp
qed

theorem no_delta_below_two_readings_witness:
  "indoorDelta demo_rt [r_latest] = NoDelta
   \<and> outdoorDelta demo_rt [r_latest] = NoDelta
   \<and> get24hDifference demo_rt [r_latest] ''20.0'' True = Some (Fin 3)"
proof -
  have short: "length [r_latest] < 2" by simp
  from no_delta_below_two_readings [OF short, of demo_rt "''20.0''" True]
  show ?thesis by (simp add: demo_defs)
qed

section \<open>A temperature that does not parse\<close>

text \<open>
  C6, as the claim states it, fails: with the empty string as the latest indoor temperature
  \<^verbatim>\<open>parseFloat\<close> gives \<open>NaN\<close>, the value is displayed as the text \<^verbatim>\<open>NaN\<close>,
  \<open>get24hDifference\<close> returns \<open>NaN\<close> and not \<open>null\<close>, and the annotation is displayed with
  the magnitude \<^verbatim>\<open>NaN\<close>.
\<close>

theorem malformed_temperature_counterexample:
  "parseFloat demo_rt (indoor_temp r_malformed) = NaN
   \<and> indoorValue demo_rt [r_exact, r_malformed] = ''NaN''
   \<and> get24hDifference demo_rt [r_exact, r_malformed] (indoor_temp r_malformed) True = Some NaN
   \<and> indoorDelta demo_rt [r_exact, r_malformed] = Delta ''NaN'' False"
  by (simp add: demo_defs r_malformed_def page_defs indoorValue_def indoorDelta_def)

text \<open>
  C6, amended. Let the latest reading's indoor (or outdoor) temperature parse to \<open>NaN\<close>. No
  error is raised, and the page has no test for a value that is not finite: the temperature
  is displayed as the text \<^verbatim>\<open>NaN\<close>, \<open>get24hDifference\<close> returns \<open>NaN\<close>, and with at
  least two readings the annotation is displayed with the magnitude \<^verbatim>\<open>NaN\<close>. The
  difference is \<open>NaN\<close> as well when it is the field of the reading 24 hours before that
  does not parse. The placeholder \<^verbatim>\<open>--\<close> stands only for a missing latest reading.
\<close>

theorem malformed_temperature_shown:
  assumes "data \<noteq> []"
  shows "(parseFloat rt (indoor_temp (last data)) = NaN \<longrightarrow>
          indoorValue rt data = ''NaN''
          \<and> get24hDifference rt data (indoor_temp (last data)) True = Some NaN
          \<and> (1 < length data \<longrightarrow> indoorDelta rt data = Delta ''NaN'' False))
      \<and> (parseFloat rt (outdoor_temp (last data)) = NaN \<longrightarrow>
          outdoorValue rt data = ''NaN''
          \<and> get24hDifference rt data (outdoor_temp (last data)) False = Some NaN
          \<and> (1 < length data \<longrightarrow> outdoorDelta rt data = Delta ''NaN'' False))
      \<and> (\<forall>r. reading24hAgo rt (twentyFourHoursAgo (Date_getTime rt (timestamp (last data)))) data
              = Some r
            \<and> parseFloat rt (if isIndoor then indoor_temp r else outdoor_temp r) = NaN
            \<longrightarrow> get24hDifference rt data currentTemp isIndoor = Some NaN)"
proof -
  have latest: "latestReading data = Some (last data)"
    using assms by (simp add: latestReading_eq)
  from assms obtain c xs where data: "data = c # xs" by (cases data) auto
  have res: "reading24hAgo rt t data = Some (foldl (closer rt t) c xs)" for t
    by (simp add: reading24hAgo_def js_index_0 data reduce_def closer_same)
  have diff: "get24hDifference rt data s b = Some NaN" if "parseFloat rt s = NaN" for s b
    using that latest res by (simp add: get24hDifference_def Let_def js_sub_NaN_right)
  have past: "\<forall>r. reading24hAgo rt (twentyFourHoursAgo (Date_getTime rt (timestamp (last data)))) data
        = Some r
      \<and> parseFloat rt (if isIndoor then indoor_temp r else outdoor_temp r) = NaN
      \<longrightarrow> get24hDifference rt data currentTemp isIndoor = Some NaN"
    using latest by (auto simp: get24hDifference_def Let_def)
  have cells: "(parseFloat rt (indoor_temp (last data)) = NaN \<longrightarrow>
          indoorValue rt data = ''NaN''
          \<and> get24hDifference rt data (indoor_temp (last data)) True = Some NaN
          \<and> (1 < length data \<longrightarrow> indoorDelta rt data = Delta ''NaN'' False))
      \<and> (parseFloat rt (outdoor_temp (last data)) = NaN \<longrightarrow>
          outdoorValue rt data = ''NaN''
          \<and> get24hDifference rt data (outdoor_temp (last data)) False = Some NaN
          \<and> (1 < length data \<longrightarrow> outdoorDelta rt data = Delta ''NaN'' False))"
    using latest diff
    by (simp add: indoorValue_def outdoorValue_def indoorDelta_def outdoorDelta_def)
  from cells past show ?thesis by blast
qed

theorem malformed_temperature_shown_witness:
  "indoorValue demo_rt [r_exact, r_malformed] = ''NaN''
   \<and> outdoorValue demo_rt [r_exact, r_malformed] = ''26.0''
   \<and> indoorDelta demo_rt [r_exact, r_malformed] = Delta ''NaN'' False"
proof -
  have ne: "[r_exact, r_malformed] \<noteq> []" by simp
  from malformed_temperature_shown [OF ne, of demo_rt True "indoor_temp r_malformed"]
  show ?thesis by (simp add: demo_defs r_malformed_def outdoorValue_def latestReading_def js_index_def)
qed

section \<open>The time window of the chart\<close>



section \<open>No reading at all\<close>

text \<open>
  C8. With the empty sequence there is no latest reading, the recommendation is "open"
  (\<open>shouldCloseWindows\<close> is false), both temperatures are displayed as the placeholder
  \<^verbatim>\<open>--\<close>, and no annotation is displayed: each of them has a value, none fails.
\<close>

theorem empty_data_defaults:
  "latestReading [] = None
   \<and> shouldCloseWindows rt [] = False
   \<and> indoorValue rt [] = ''--''
   \<and> outdoorValue rt [] = ''--''
   \<and> indoorDelta rt [] = NoDelta
   \<and> outdoorDelta rt [] = NoDelta"
  by (simp add: latestReading_eq shouldCloseWindows_def indoorValue_def outdoorValue_def
      indoorDelta_def outdoorDelta_def)

section \<open>The filter keeps the order\<close>

text \<open>
  C10. The filtered sequence is a subsequence of the input, in the input's order; if the
  input is ascending by timestamp, so is the filtered sequence; and the chart receives one
  point for each kept reading, in that order.
\<close>

theorem filteredData_order:
  "subseq (filteredData rt now timeRange data) data
   \<and> (ascending rt data \<longrightarrow> ascending rt (filteredData rt now timeRange data))
   \<and> formatData rt now timeRange data = map (toPoint rt) (filteredData rt now timeRange data)
   \<and> map time_label (formatData rt now timeRange data)
      = map (\<lambda>r. toLocaleString rt (Date_getTime rt (timestamp r)))
          (filteredData rt now timeRange data)"
proof -
  have sub: "subseq (filteredData rt now timeRange data) data"
    by (simp add: filteredData_def)
  have asc: "ascending rt data \<longrightarrow> ascending rt (filteredData rt now timeRange data)"
    by (simp add: filteredData_def ascending_def sorted_wrt_filter)
  have points: "formatData rt now timeRange data
      = map (toPoint rt) (filteredData rt now timeRange data)"
    by (simp add: formatData_def)
  have labels: "map time_label (formatData rt now timeRange data)
      = map (\<lambda>r. toLocaleString rt (Date_getTime rt (timestamp r)))
          (filteredData rt now timeRange data)"
    by (simp add: points toPoint_def)
  from sub asc points labels show ?thesis by simp
qed

theorem filteredData_order_witness:
  "ascending demo_rt [r_old, r_week, r_before, r_exact, r_after, r_latest]
   \<and> ascending demo_rt
       (filteredData demo_rt demo_now T7d [r_old, r_week, r_before, r_exact, r_after, r_latest])
   \<and> subseq [r_week, r_before, r_exact, r_after, r_latest]
       [r_old, r_week, r_before, r_exact, r_after, r_latest]"
proof -
  let ?data = "[r_old, r_week, r_before, r_exact, r_after, r_latest]"
  have asc: "ascending demo_rt ?data"
    by (simp add: ascending_def demo_defs js_le_def js_ge_def)
  have flt: "filteredData demo_rt demo_now T7d ?data = [r_week, r_before, r_exact, r_after, r_latest]"
    by (simp add: demo_defs filteredData_def cutoffTime_def js_ge_def)
  from filteredData_order [of demo_rt demo_now T7d ?data] asc flt
  show ?thesis by simp
qed

end
